theory Spec2Isabelle
  imports Complex_Main "HOL-Library.Sublist"
begin

section \<open>Values of the program\<close>

text \<open>
  The handlers of \<^verbatim>\<open>app.py\<close> work on decoded JSON: the request body, the body the
  upstream API answers with, the entries of the history logs and the bodies the handlers
  return. A decoded dict has each key once; it is kept as an association list in insertion
  order and read with \<open>map_of\<close>. Text is a \<open>string\<close> whose characters stand for the code
  points below 256.
\<close>

datatype json =
    JNull
  | JBool bool
  | JInt int
  | JFloat real
  | JStr string
  | JArr "json list"
  | JObj "(string \<times> json) list"

text \<open>The exceptions the handlers can let escape.\<close>

datatype py_error = TypeError | AttributeError | IndexError | KeyError

subsection \<open>Python's operators on decoded JSON\<close>

text \<open>\<^verbatim>\<open>k in x\<close>: a key of a dict, an element of a list, a substring of a string; any
  other operand is not iterable.\<close>

fun py_in :: "string \<Rightarrow> json \<Rightarrow> py_error + bool" where
  "py_in k (JObj kvs) = Inr (k \<in> set (map fst kvs))"
| "py_in k (JArr xs) = Inr (JStr k \<in> set xs)"
| "py_in k (JStr s) = Inr (sublist k s)"
| "py_in k JNull = Inl TypeError"
| "py_in k (JBool b) = Inl TypeError"
| "py_in k (JInt i) = Inl TypeError"
| "py_in k (JFloat f) = Inl TypeError"

text \<open>\<^verbatim>\<open>x[k]\<close> with a string \<open>k\<close>: only a dict takes a string subscript.\<close>

fun getitem :: "json \<Rightarrow> string \<Rightarrow> py_error + json" where
  "getitem (JObj kvs) k = (case map_of kvs k of None \<Rightarrow> Inl KeyError | Some v \<Rightarrow> Inr v)"
| "getitem JNull k = Inl TypeError"
| "getitem (JBool b) k = Inl TypeError"
| "getitem (JInt i) k = Inl TypeError"
| "getitem (JFloat f) k = Inl TypeError"
| "getitem (JStr s) k = Inl TypeError"
| "getitem (JArr xs) k = Inl TypeError"

text \<open>\<^verbatim>\<open>x[0]\<close>: the first element of a list, the first character of a string; the keys
  of a decoded dict are strings, so \<open>0\<close> is never one of them.\<close>

fun getitem0 :: "json \<Rightarrow> py_error + json" where
  "getitem0 (JArr []) = Inl IndexError"
| "getitem0 (JArr (x # xs)) = Inr x"
| "getitem0 (JStr []) = Inl IndexError"
| "getitem0 (JStr (c # cs)) = Inr (JStr [c])"
| "getitem0 (JObj kvs) = Inl KeyError"
| "getitem0 JNull = Inl TypeError"
| "getitem0 (JBool b) = Inl TypeError"
| "getitem0 (JInt i) = Inl TypeError"
| "getitem0 (JFloat f) = Inl TypeError"

text \<open>\<^verbatim>\<open>x.get(k, d)\<close>: a method of dicts only.\<close>

fun dict_get :: "json \<Rightarrow> string \<Rightarrow> json \<Rightarrow> py_error + json" where
  "dict_get (JObj kvs) k d = Inr (case map_of kvs k of None \<Rightarrow> d | Some v \<Rightarrow> v)"
| "dict_get JNull k d = Inl AttributeError"
| "dict_get (JBool b) k d = Inl AttributeError"
| "dict_get (JInt i) k d = Inl AttributeError"
| "dict_get (JFloat f) k d = Inl AttributeError"
| "dict_get (JStr s) k d = Inl AttributeError"
| "dict_get (JArr xs) k d = Inl AttributeError"

text \<open>Truth value of an operand of \<^verbatim>\<open>or\<close>.\<close>

fun truthy :: "json \<Rightarrow> bool" where
  "truthy JNull = False"
| "truthy (JBool b) = b"
| "truthy (JInt i) = (i \<noteq> 0)"
| "truthy (JFloat f) = (f \<noteq> 0)"
| "truthy (JStr s) = (s \<noteq> [])"
| "truthy (JArr xs) = (xs \<noteq> [])"
| "truthy (JObj kvs) = (kvs \<noteq> [])"

subsection \<open>String methods\<close>

text \<open>The code points below 256 that \<^verbatim>\<open>str.isspace\<close> accepts.\<close>

definition isspace :: "char \<Rightarrow> bool" where
  "isspace c = ((of_char c :: nat) \<in> {9, 10, 11, 12, 13, 28, 29, 30, 31, 32, 133, 160})"

definition strip_str :: "string \<Rightarrow> string" where
  "strip_str s = rev (dropWhile isspace (rev (dropWhile isspace s)))"

text \<open>\<^verbatim>\<open>x.strip()\<close>: a method of strings only.\<close>

fun strip :: "json \<Rightarrow> py_error + string" where
  "strip (JStr s) = Inr (strip_str s)"
| "strip JNull = Inl AttributeError"
| "strip (JBool b) = Inl AttributeError"
| "strip (JInt i) = Inl AttributeError"
| "strip (JFloat f) = Inl AttributeError"
| "strip (JArr xs) = Inl AttributeError"
| "strip (JObj kvs) = Inl AttributeError"

text \<open>Lower-casing of one code point below 256: the Latin capitals and the capitals of
  the Latin-1 supplement (not the multiplication sign) move up by 32.\<close>

definition lower_char :: "char \<Rightarrow> char" where
  "lower_char c =
     (let n = (of_char c :: nat)
      in if (65 \<le> n \<and> n \<le> 90) \<or> (192 \<le> n \<and> n \<le> 214) \<or> (216 \<le> n \<and> n \<le> 222)
         then char_of (n + 32) else c)"

definition lower_str :: "string \<Rightarrow> string" where
  "lower_str s = map lower_char s"

text \<open>\<^verbatim>\<open>x.lower()\<close>: a method of strings only.\<close>

fun lower :: "json \<Rightarrow> py_error + string" where
  "lower (JStr s) = Inr (lower_str s)"
| "lower JNull = Inl AttributeError"
| "lower (JBool b) = Inl AttributeError"
| "lower (JInt i) = Inl AttributeError"
| "lower (JFloat f) = Inl AttributeError"
| "lower (JArr xs) = Inl AttributeError"
| "lower (JObj kvs) = Inl AttributeError"

section \<open>State\<close>

text \<open>The global \<^verbatim>\<open>memory\<close> dict, with its fixed keys as fields. The history entries
  are the dicts the handlers append, returned as they are by \<^verbatim>\<open>/api/history\<close>.\<close>

record history_logs =
  chats :: "json list"
  tasks :: "json list"
  emails :: "json list"

record memory =
  xp :: int
  last_chat :: json
  last_tasks :: json
  history :: history_logs

definition memory_init :: memory where
  "memory_init =
     \<lparr>xp = 500, last_chat = JNull, last_tasks = JNull,
      history = \<lparr>chats = [], tasks = [], emails = []\<rparr>\<rparr>"

text \<open>The two values read from the environment at start-up.\<close>

record config =
  OPENROUTER_KEY :: string
  MODEL :: string

text \<open>One POST to the upstream API: the headers and the JSON body.\<close>

record api_request =
  headers :: "(string \<times> string) list"
  model :: string
  messages :: "(string \<times> string) list"
  max_tokens :: int
  temperature :: real

text \<open>What \<^verbatim>\<open>requests.post(...).json()\<close> does with a request: it raises (timeout, DNS,
  connection reset, a body that is not JSON), or it yields the decoded body.\<close>

datatype outcome = Raises string | Body json

type_synonym upstream = "api_request \<Rightarrow> outcome"

text \<open>The part of the world a handler can change: the memory, and the upstream calls
  made so far, oldest first.\<close>

record world =
  mem :: memory
  sent :: "api_request list"

text \<open>A handler's answer: the JSON body and the HTTP status.\<close>

type_synonym response = "json \<times> nat"

section \<open>The upstream client\<close>

definition headers_of :: "config \<Rightarrow> string \<Rightarrow> (string \<times> string) list" where
  "headers_of cfg title =
     [(''Authorization'', ''Bearer '' @ OPENROUTER_KEY cfg),
      (''HTTP-Referer'', ''http://localhost:5001''),
      (''X-Title'', title),
      (''Content-Type'', ''application/json'')]"

definition call_openrouter ::
  "upstream \<Rightarrow> config \<Rightarrow> (string \<times> string) list \<Rightarrow> string \<Rightarrow> int \<Rightarrow> real \<Rightarrow> string \<Rightarrow>
   world \<Rightarrow> (py_error + json) \<times> world" where
  "call_openrouter net cfg msgs m mt temp title w =
     (let req = \<lparr>headers = headers_of cfg title, model = m, messages = msgs,
                 max_tokens = mt, temperature = temp\<rparr>;
          w' = w\<lparr>sent := sent w @ [req]\<rparr>
      in case net req of
           Body data \<Rightarrow> (Inr data, w')
         | Raises e \<Rightarrow> (Inr (JObj [(''error'', JStr e)]), w'))"

section \<open>The handlers\<close>

text \<open>\<^verbatim>\<open>resp["choices"][0]["message"]["content"]\<close>, left to right.\<close>

definition first_choice_content :: "json \<Rightarrow> py_error + json" where
  "first_choice_content resp =
     (case getitem resp ''choices'' of Inl e \<Rightarrow> Inl e | Inr cs \<Rightarrow>
      case getitem0 cs of Inl e \<Rightarrow> Inl e | Inr c \<Rightarrow>
      case getitem c ''message'' of Inl e \<Rightarrow> Inl e | Inr msg \<Rightarrow>
      getitem msg ''content'')"

subsection \<open>/api/ask\<close>

definition ask_system :: string where
  "ask_system = ''You are Persona, a concise, friendly assistant. '' @
                ''Reply in under 3 lines, with clarity and encouragement.''"

definition models :: "string list" where
  "models = [''meta-llama/llama-3.1-8b-instruct'',
             ''mistralai/mistral-7b-instruct-v0.3'',
             ''google/gemma-2-9b-it'']"

text \<open>The \<^verbatim>\<open>for m in models\<close> loop of \<open>ask\<close> with the statement after it; \<open>now\<close> is the
  clock reading taken when the entry is appended.\<close>

fun ask_loop ::
  "upstream \<Rightarrow> config \<Rightarrow> string \<Rightarrow> real \<Rightarrow> string list \<Rightarrow> world \<Rightarrow> (py_error + response) \<times> world"
  where
  "ask_loop net cfg q now [] w = (Inr (JObj [(''error'', JStr ''All models failed'')], 500), w)"
| "ask_loop net cfg q now (m # ms) w =
     (case call_openrouter net cfg [(''system'', ask_system), (''user'', q)] m 80 (7 / 10)
             ''Persona Chat'' w of
        (Inl e, w1) \<Rightarrow> (Inl e, w1)
      | (Inr resp, w1) \<Rightarrow>
          (case py_in ''choices'' resp of
             Inl e \<Rightarrow> (Inl e, w1)
           | Inr False \<Rightarrow> ask_loop net cfg q now ms w1
           | Inr True \<Rightarrow>
               (case first_choice_content resp of
                  Inl e \<Rightarrow> (Inl e, w1)
                | Inr ai \<Rightarrow>
                    (Inr (JObj [(''reply'', ai), (''model'', JStr m)], 200),
                     w1\<lparr>mem := (mem w1)\<lparr>history := (history (mem w1))
                        \<lparr>chats := chats (history (mem w1)) @
                           [JObj [(''user'', JStr q), (''ai'', ai), (''ts'', JFloat now)]]\<rparr>\<rparr>\<rparr>))))"

definition ask :: "upstream \<Rightarrow> config \<Rightarrow> json \<Rightarrow> real \<Rightarrow> world \<Rightarrow> (py_error + response) \<times> world"
  where
  "ask net cfg data now w =
     (case dict_get data ''message'' (JStr []) of Inl e \<Rightarrow> (Inl e, w) | Inr v \<Rightarrow>
      case strip v of Inl e \<Rightarrow> (Inl e, w) | Inr q \<Rightarrow>
      if q = [] then (Inr (JObj [(''error'', JStr ''Empty message'')], 400), w)
      else ask_loop net cfg q now models (w\<lparr>mem := (mem w)\<lparr>last_chat := JStr q\<rparr>\<rparr>))"

subsection \<open>/api/tasks\<close>

definition tasks_system :: string where
  "tasks_system = ''You are Persona, an intelligent planner. '' @
                  ''Output exactly 3 short bullet points, crisp and doable.''"

definition create_tasks ::
  "upstream \<Rightarrow> config \<Rightarrow> json \<Rightarrow> real \<Rightarrow> world \<Rightarrow> (py_error + response) \<times> world" where
  "create_tasks net cfg data now w =
     (case dict_get data ''goal'' (JStr ''Plan my day effectively'') of
        Inl e \<Rightarrow> (Inl e, w) | Inr v \<Rightarrow>
      case strip v of Inl e \<Rightarrow> (Inl e, w) | Inr goal \<Rightarrow>
      case call_openrouter net cfg [(''system'', tasks_system), (''user'', goal)] (MODEL cfg) 90
             (7 / 10) ''Persona Task Generator'' w of
        (Inl e, w1) \<Rightarrow> (Inl e, w1)
      | (Inr resp, w1) \<Rightarrow>
          (case py_in ''choices'' resp of
             Inl e \<Rightarrow> (Inl e, w1)
           | Inr False \<Rightarrow> (Inr (JObj [(''error'', resp)], 400), w1)
           | Inr True \<Rightarrow>
               (case first_choice_content resp of
                  Inl e \<Rightarrow> (Inl e, w1)
                | Inr items \<Rightarrow>
                    (Inr (JObj [(''tasks'', items)], 200),
                     w1\<lparr>mem := (mem w1)\<lparr>last_tasks := items,
                        history := (history (mem w1))
                          \<lparr>tasks := tasks (history (mem w1)) @
                             [JObj [(''goal'', JStr goal), (''items'', items),
                                    (''ts'', JFloat now)]]\<rparr>\<rparr>\<rparr>))))"

subsection \<open>/api/draft-email\<close>

definition email_system :: string where
  "email_system = ''You are Persona, a professional email assistant. '' @
                  ''Write a concise reply under 100 words, with greeting and closing.''"

definition draft_email ::
  "upstream \<Rightarrow> config \<Rightarrow> json \<Rightarrow> real \<Rightarrow> world \<Rightarrow> (py_error + response) \<times> world" where
  "draft_email net cfg data now w =
     (case dict_get data ''thread'' (JStr []) of Inl e \<Rightarrow> (Inl e, w) | Inr v \<Rightarrow>
      case strip v of Inl e \<Rightarrow> (Inl e, w) | Inr thread \<Rightarrow>
      if thread = [] then (Inr (JObj [(''error'', JStr ''Empty thread'')], 400), w)
      else
        (case call_openrouter net cfg
                [(''system'', email_system),
                 (''user'', ''Draft a reply for this thread:'' @ [CHR 0x0A, CHR 0x0A] @ thread)]
                (MODEL cfg) 130 (6 / 10) ''Persona Email Writer''
                (w\<lparr>mem := (mem w)\<lparr>last_chat := JStr thread\<rparr>\<rparr>) of
           (Inl e, w1) \<Rightarrow> (Inl e, w1)
         | (Inr resp, w1) \<Rightarrow>
             (case py_in ''choices'' resp of
                Inl e \<Rightarrow> (Inl e, w1)
              | Inr False \<Rightarrow> (Inr (JObj [(''error'', resp)], 400), w1)
              | Inr True \<Rightarrow>
                  (case first_choice_content resp of
                     Inl e \<Rightarrow> (Inl e, w1)
                   | Inr draft \<Rightarrow>
                       (Inr (JObj [(''draft'', draft)], 200),
                        w1\<lparr>mem := (mem w1)\<lparr>history := (history (mem w1))
                           \<lparr>emails := emails (history (mem w1)) @
                              [JObj [(''thread'', JStr thread), (''draft'', draft),
                                     (''ts'', JFloat now)]]\<rparr>\<rparr>\<rparr>)))))"

subsection \<open>/api/xp\<close>

definition gain_table :: "(string \<times> int) list" where
  "gain_table = [(''chat'', 10), (''task'', 20), (''email'', 15)]"

text \<open>The handler \<^verbatim>\<open>xp_update\<close>; the record field \<open>xp\<close> already owns that name.\<close>

definition xp_update_handler :: "json \<Rightarrow> world \<Rightarrow> (py_error + response) \<times> world" where
  "xp_update_handler data w =
     (case dict_get data ''action'' JNull of Inl e \<Rightarrow> (Inl e, w) | Inr v \<Rightarrow>
      case lower (if truthy v then v else JStr ''chat'') of Inl e \<Rightarrow> (Inl e, w) | Inr action \<Rightarrow>
      let gain = (case map_of gain_table action of None \<Rightarrow> 5 | Some g \<Rightarrow> g);
          w1 = w\<lparr>mem := (mem w)\<lparr>xp := xp (mem w) + gain\<rparr>\<rparr>
      in (Inr (JObj [(''action'', JStr action), (''xp_gained'', JInt gain),
                     (''total_xp'', JInt (xp (mem w1)))], 200), w1))"

subsection \<open>/api/health, /api/history, /api/history/clear\<close>

definition health :: "config \<Rightarrow> world \<Rightarrow> (py_error + response) \<times> world" where
  "health cfg w =
     (Inr (JObj [(''ok'', JBool True), (''model'', JStr (MODEL cfg)),
                 (''xp'', JInt (xp (mem w))), (''last_chat'', last_chat (mem w)),
                 (''last_tasks'', last_tasks (mem w))], 200), w)"

text \<open>The slice \<^verbatim>\<open>xs[-20:]\<close>.\<close>

definition last20 :: "'a list \<Rightarrow> 'a list" where
  "last20 xs = drop (length xs - 20) xs"

definition get_history :: "world \<Rightarrow> (py_error + response) \<times> world" where
  "get_history w =
     (let h = history (mem w)
      in (Inr (JObj [(''chats'', JArr (last20 (chats h))),
                     (''tasks'', JArr (last20 (tasks h))),
                     (''emails'', JArr (last20 (emails h)))], 200), w))"

definition clear_history :: "world \<Rightarrow> (py_error + response) \<times> world" where
  "clear_history w =
     (Inr (JObj [(''ok'', JBool True)], 200),
      w\<lparr>mem := (mem w)\<lparr>history := \<lparr>chats = [], tasks = [], emails = []\<rparr>\<rparr>\<rparr>)"

text \<open>The request \<open>ask\<close> sends for the message \<open>q\<close> and the model \<open>m\<close>.\<close>

definition chat_request :: "config \<Rightarrow> string \<Rightarrow> string \<Rightarrow> api_request" where
  "chat_request cfg q m =
     \<lparr>headers = headers_of cfg ''Persona Chat'', model = m,
      messages = [(''system'', ask_system), (''user'', q)],
      max_tokens = 80, temperature = 7 / 10\<rparr>"

text \<open>The request \<open>create_tasks\<close> sends for the goal \<open>goal\<close>.\<close>

definition tasks_request :: "config \<Rightarrow> string \<Rightarrow> api_request" where
  "tasks_request cfg goal =
     \<lparr>headers = headers_of cfg ''Persona Task Generator'', model = MODEL cfg,
      messages = [(''system'', tasks_system), (''user'', goal)],
      max_tokens = 90, temperature = 7 / 10\<rparr>"

text \<open>The request \<open>draft_email\<close> sends for the thread \<open>thread\<close>.\<close>

definition email_request :: "config \<Rightarrow> string \<Rightarrow> api_request" where
  "email_request cfg thread =
     \<lparr>headers = headers_of cfg ''Persona Email Writer'', model = MODEL cfg,
      messages = [(''system'', email_system),
                  (''user'', ''Draft a reply for this thread:'' @ [CHR 0x0A, CHR 0x0A] @ thread)],
      max_tokens = 130, temperature = 6 / 10\<rparr>"

text \<open>The world at start-up, and a configuration and upstreams to run the handlers on.\<close>

definition world_init :: world where
  "world_init = \<lparr>mem = memory_init, sent = []\<rparr>"

definition example_config :: config where
  "example_config = \<lparr>OPENROUTER_KEY = ''sk-test'', MODEL = ''meta-llama/llama-3.1-8b-instruct''\<rparr>"

definition completion :: "string \<Rightarrow> json" where
  "completion text =
     JObj [(''choices'', JArr [JObj [(''message'', JObj [(''role'', JStr ''assistant''),
                                                       (''content'', JStr text)])]])]"

definition upstream_down :: upstream where
  "upstream_down req = Raises ''timed out''"

definition upstream_second_answers :: upstream where
  "upstream_second_answers req =
     (if model req = ''meta-llama/llama-3.1-8b-instruct''
      then Body (JObj [(''error'', JObj [(''message'', JStr ''No endpoints found''),
                                         (''code'', JInt 404)])])
      else Body (completion ''Hello!''))"

definition upstream_first_empty :: upstream where
  "upstream_first_empty req =
     (if model req = ''meta-llama/llama-3.1-8b-instruct''
      then Body (JObj [(''choices'', JArr [])])
      else Body (completion ''Hello!''))"


text \<open>The routes of the application.\<close>

datatype request =
    PostAsk json
  | PostTasks json
  | PostDraftEmail json
  | PostXp json
  | GetHealth
  | GetHistory
  | PostHistoryClear

fun route ::
  "upstream \<Rightarrow> config \<Rightarrow> real \<Rightarrow> request \<Rightarrow> world \<Rightarrow> (py_error + response) \<times> world" where
  "route net cfg now (PostAsk data) w = ask net cfg data now w"
| "route net cfg now (PostTasks data) w = create_tasks net cfg data now w"
| "route net cfg now (PostDraftEmail data) w = draft_email net cfg data now w"
| "route net cfg now (PostXp data) w = xp_update_handler data w"
| "route net cfg now GetHealth w = health cfg w"
| "route net cfg now GetHistory w = get_history w"
| "route net cfg now PostHistoryClear w = clear_history w"

section \<open>Properties\<close>

subsection \<open>Helper facts\<close>

lemma dropWhile_all: "(\<forall>c\<in>set s. P c) \<Longrightarrow> dropWhile P s = []"
  by (induction s) auto

lemma strip_str_empty_iff: "strip_str s = [] \<longleftrightarrow> (\<forall>c\<in>set s. isspace c)"
proof
  assume "strip_str s = []"
  then have "dropWhile isspace (rev (dropWhile isspace s)) = []"
    by (simp add: strip_str_def)
  then have "\<forall>c\<in>set (dropWhile isspace s). isspace c"
    by (simp add: dropWhile_eq_Nil_conv)
  then have "dropWhile isspace s = []"
    by (metis hd_dropWhile list.set_sel(1))
  then show "\<forall>c\<in>set s. isspace c"
    by (simp add: dropWhile_eq_Nil_conv)
next
  assume "\<forall>c\<in>set s. isspace c"
  then show "strip_str s = []"
    by (simp add: strip_str_def dropWhile_all)
qed

lemma strip_default_goal: "strip_str ''Plan my day effectively'' = ''Plan my day effectively''"
  by (simp add: strip_str_def isspace_def)

lemma py_in_key: "map_of kvs k = Some v \<Longrightarrow> py_in k (JObj kvs) = Inr True"
  by (auto dest: map_of_SomeD intro: image_eqI [where x = "(k, v)"])

lemma last20_length: "length (last20 xs) = min 20 (length xs)"
  by (simp add: last20_def)

lemma last20_suffix: "suffix (last20 xs) xs"
  by (simp add: last20_def suffix_drop)

text \<open>What one call of the client amounts to, for each of the three callers.\<close>

lemma call_openrouter_chat:
  "call_openrouter net cfg [(''system'', ask_system), (''user'', q)] m 80 (7 / 10)
     ''Persona Chat'' w =
     (Inr (case net (chat_request cfg q m) of
             Raises e \<Rightarrow> JObj [(''error'', JStr e)] | Body d \<Rightarrow> d),
      w\<lparr>sent := sent w @ [chat_request cfg q m]\<rparr>)"
  by (simp add: call_openrouter_def chat_request_def Let_def split: outcome.split)

lemma call_openrouter_tasks:
  "call_openrouter net cfg [(''system'', tasks_system), (''user'', goal)] (MODEL cfg) 90 (7 / 10)
     ''Persona Task Generator'' w =
     (Inr (case net (tasks_request cfg goal) of
             Raises e \<Rightarrow> JObj [(''error'', JStr e)] | Body d \<Rightarrow> d),
      w\<lparr>sent := sent w @ [tasks_request cfg goal]\<rparr>)"
  by (simp add: call_openrouter_def tasks_request_def Let_def split: outcome.split)

lemma call_openrouter_email:
  "call_openrouter net cfg
     [(''system'', email_system),
      (''user'', ''Draft a reply for this thread:'' @ [CHR 0x0A, CHR 0x0A] @ thread)]
     (MODEL cfg) 130 (6 / 10) ''Persona Email Writer'' w =
     (Inr (case net (email_request cfg thread) of
             Raises e \<Rightarrow> JObj [(''error'', JStr e)] | Body d \<Rightarrow> d),
      w\<lparr>sent := sent w @ [email_request cfg thread]\<rparr>)"
  by (simp add: call_openrouter_def email_request_def Let_def split: outcome.split)

subsection \<open>The upstream client\<close>

text \<open>
  C5. \<open>call_openrouter\<close> never raises: whatever the POST does, the result is a value. When
  the POST or the decoding raises with message \<open>e\<close>, the value is the dict
  \<^verbatim>\<open>{"error": e}\<close>; otherwise it is the decoded body as it came, whatever it holds, so
  the test for the key \<^verbatim>\<open>choices\<close> is left to the caller. One call is recorded.
\<close>

theorem call_openrouter_never_raises:
  "call_openrouter net cfg msgs m mt temp title w =
     (Inr (case net \<lparr>headers = headers_of cfg title, model = m, messages = msgs,
                      max_tokens = mt, temperature = temp\<rparr> of
             Raises e \<Rightarrow> JObj [(''error'', JStr e)]
           | Body data \<Rightarrow> data),
      w\<lparr>sent := sent w @ [\<lparr>headers = headers_of cfg title, model = m, messages = msgs,
                            max_tokens = mt, temperature = temp\<rparr>]\<rparr>)"
  by (simp add: call_openrouter_def Let_def split: outcome.split)

subsection \<open>The fallback loop\<close>


text \<open>The loop when the models of \<open>pre\<close> miss and the next one answers with a first choice
  that can be read: the models after it are not called.\<close>

lemma ask_loop_first_hit:
  assumes "\<forall>m\<in>set pre. case net (chat_request cfg q m) of
             Raises e \<Rightarrow> True | Body d \<Rightarrow> py_in ''choices'' d = Inr False"
    and "net (chat_request cfg q m) = Body d"
    and "py_in ''choices'' d = Inr True"
    and "first_choice_content d = Inr ai"
  shows "ask_loop net cfg q now (pre @ m # post) w =
           (Inr (JObj [(''reply'', ai), (''model'', JStr m)], 200),
            w\<lparr>mem := (mem w)\<lparr>history := (history (mem w))
                 \<lparr>chats := chats (history (mem w)) @
                    [JObj [(''user'', JStr q), (''ai'', ai), (''ts'', JFloat now)]]\<rparr>\<rparr>,
              sent := sent w @ map (chat_request cfg q) (pre @ [m])\<rparr>)"
  using assms
proof (induction pre arbitrary: w)
  case Nil
  then show ?case by (simp add: call_openrouter_chat)
next
  case (Cons p pre)
  then show ?case
    by (cases "net (chat_request cfg q p)") (simp_all add: call_openrouter_chat)
qed

text \<open>Whatever the loop does, it leaves the task and email logs alone and can only add
  to the end of the chat log.\<close>

lemma ask_loop_history:
  "\<exists>es. history (mem (snd (ask_loop net cfg q now ms w))) =
          (history (mem w))\<lparr>chats := chats (history (mem w)) @ es\<rparr>"
proof (induction ms arbitrary: w)
  case Nil
  show ?case by (rule exI [of _ "[]"]) simp
next
  case (Cons m ms)
  obtain es where es:
    "history (mem (snd (ask_loop net cfg q now ms (w\<lparr>sent := sent w @ [chat_request cfg q m]\<rparr>)))) =
       (history (mem w))\<lparr>chats := chats (history (mem w)) @ es\<rparr>"
    using Cons.IH [of "w\<lparr>sent := sent w @ [chat_request cfg q m]\<rparr>"] by auto
  show ?case
    using es
    by (auto simp: call_openrouter_chat split: sum.splits bool.splits intro: exI [of _ "[]"])
qed

lemma ask_nonblank:
  assumes "map_of kvs ''message'' = Some (JStr s)" and "strip_str s \<noteq> []"
  shows "ask net cfg (JObj kvs) now w =
           ask_loop net cfg (strip_str s) now models
             (w\<lparr>mem := (mem w)\<lparr>last_chat := JStr (strip_str s)\<rparr>\<rparr>)"
  using assms by (simp add: ask_def)

text \<open>
  The success path of \<open>ask\<close>. Let the message be non-blank, let every model before
  position \<open>i\<close> get an answer on which the guard is false (the call raised, or the test
  \<^verbatim>\<open>"choices" in resp\<close> is false on the body), and let the model at position \<open>i\<close> get a
  dict whose \<^verbatim>\<open>choices\<close> is a non-empty list with a first element that carries
  \<^verbatim>\<open>message.content\<close>. Then \<open>ask\<close> answers 200 with that content as \<^verbatim>\<open>reply\<close> and that
  model's identifier as \<^verbatim>\<open>model\<close>, appends one chat entry, and has called exactly the
  first \<open>i + 1\<close> models, once each.
\<close>

theorem ask_first_choices:
  assumes "map_of kvs ''message'' = Some (JStr s)" and "strip_str s \<noteq> []"
    and "i < length models"
    and "\<forall>j<i. case net (chat_request cfg (strip_str s) (models ! j)) of
           Raises e \<Rightarrow> True | Body d \<Rightarrow> py_in ''choices'' d = Inr False"
    and "net (chat_request cfg (strip_str s) (models ! i)) = Body (JObj rkvs)"
    and "map_of rkvs ''choices'' = Some (JArr (JObj ckvs # cs))"
    and "map_of ckvs ''message'' = Some (JObj mkvs)"
    and "map_of mkvs ''content'' = Some ai"
  shows "ask net cfg (JObj kvs) now w =
           (Inr (JObj [(''reply'', ai), (''model'', JStr (models ! i))], 200),
            w\<lparr>mem := (mem w)\<lparr>last_chat := JStr (strip_str s),
                 history := (history (mem w))
                   \<lparr>chats := chats (history (mem w)) @
                      [JObj [(''user'', JStr (strip_str s)), (''ai'', ai),
                             (''ts'', JFloat now)]]\<rparr>\<rparr>,
              sent := sent w @ map (chat_request cfg (strip_str s)) (take (Suc i) models)\<rparr>)"
proof -
  let ?q = "strip_str s"
  have split: "models = take i models @ models ! i # drop (Suc i) models"
    using assms(3) by (rule id_take_nth_drop)
  have miss: "\<forall>m\<in>set (take i models). case net (chat_request cfg ?q m) of
                Raises e \<Rightarrow> True | Body d \<Rightarrow> py_in ''choices'' d = Inr False"
  proof
    fix m assume "m \<in> set (take i models)"
    then obtain j where "j < i" "m = models ! j"
      using assms(3) by (auto simp: in_set_conv_nth)
    with assms(4) show "case net (chat_request cfg ?q m) of
                Raises e \<Rightarrow> True | Body d \<Rightarrow> py_in ''choices'' d = Inr False"
      by simp
  qed
  have guard: "py_in ''choices'' (JObj rkvs) = Inr True"
    using assms(6) by (rule py_in_key)
  have content: "first_choice_content (JObj rkvs) = Inr ai"
    using assms(6,7,8) by (simp add: first_choice_content_def)
  have tk: "take i models @ [models ! i] = take (Suc i) models"
    using assms(3) by (simp add: take_Suc_conv_app_nth)
  have "ask net cfg (JObj kvs) now w =
          ask_loop net cfg ?q now (take i models @ models ! i # drop (Suc i) models)
            (w\<lparr>mem := (mem w)\<lparr>last_chat := JStr ?q\<rparr>\<rparr>)"
    using ask_nonblank [OF assms(1,2)] split by simp
  also have "\<dots> = (Inr (JObj [(''reply'', ai), (''model'', JStr (models ! i))], 200),
            w\<lparr>mem := (mem w)\<lparr>last_chat := JStr ?q,
                 history := (history (mem w))
                   \<lparr>chats := chats (history (mem w)) @
                      [JObj [(''user'', JStr ?q), (''ai'', ai), (''ts'', JFloat now)]]\<rparr>\<rparr>,
              sent := sent w @ map (chat_request cfg ?q) (take (Suc i) models)\<rparr>)"
    unfolding ask_loop_first_hit [OF miss assms(5) guard content] tk [symmetric]
    by simp
  finally show ?thesis .
qed

text \<open>The first model is answered with an error dict, the second with a completion: two
  calls are made and the reply carries the second model's identifier.\<close>

theorem ask_first_choices_witness:
  "ask upstream_second_answers example_config (JObj [(''message'', JStr ''hi'')]) 0 world_init =
     (Inr (JObj [(''reply'', JStr ''Hello!''),
                 (''model'', JStr ''mistralai/mistral-7b-instruct-v0.3'')], 200),
      world_init\<lparr>mem := (mem world_init)\<lparr>last_chat := JStr ''hi'',
           history := \<lparr>chats = [JObj [(''user'', JStr ''hi''), (''ai'', JStr ''Hello!''),
                                       (''ts'', JFloat 0)]],
                       tasks = [], emails = []\<rparr>\<rparr>,
        sent := [chat_request example_config ''hi'' ''meta-llama/llama-3.1-8b-instruct'',
                 chat_request example_config ''hi'' ''mistralai/mistral-7b-instruct-v0.3'']\<rparr>)"
  using ask_first_choices [where kvs = "[(''message'', JStr ''hi'')]" and s = "''hi''" and i = 1
          and net = upstream_second_answers and cfg = example_config
          and rkvs = "[(''choices'', JArr [JObj [(''message'',
                          JObj [(''role'', JStr ''assistant''), (''content'', JStr ''Hello!'')])]])]"
          and ckvs = "[(''message'',
                          JObj [(''role'', JStr ''assistant''), (''content'', JStr ''Hello!'')])]"
          and cs = "[]"
          and mkvs = "[(''role'', JStr ''assistant''), (''content'', JStr ''Hello!'')]"
          and ai = "JStr ''Hello!''" and now = 0 and w = world_init]
  by (simp add: strip_str_def isspace_def upstream_second_answers_def completion_def models_def
      chat_request_def world_init_def memory_init_def)

text \<open>
  C1. The loop is to stop at the first answer that holds a non-empty \<^verbatim>\<open>choices\<close> list and
  to return its first choice with that model's identifier. Here the first model is
  answered with \<^verbatim>\<open>{"choices": []}\<close> and the second with a completion, so the first answer
  with a non-empty \<^verbatim>\<open>choices\<close> list is the second model's. \<open>ask\<close> does not return it: the
  guard \<^verbatim>\<open>"choices" in resp\<close> lets the empty list through, the index \<^verbatim>\<open>[0]\<close> raises
  IndexError, and the handler ends after one call without a reply.
\<close>

theorem ask_empty_choices_failing_input:
  "upstream_first_empty (chat_request example_config ''hi'' (models ! 0)) =
     Body (JObj [(''choices'', JArr [])])
   \<and> upstream_first_empty (chat_request example_config ''hi'' (models ! 1)) =
     Body (completion ''Hello!'')
   \<and> fst (ask upstream_first_empty example_config (JObj [(''message'', JStr ''hi'')]) 0
            world_init) = Inl IndexError
   \<and> fst (ask upstream_first_empty example_config (JObj [(''message'', JStr ''hi'')]) 0
            world_init) \<noteq>
       Inr (JObj [(''reply'', JStr ''Hello!''), (''model'', JStr (models ! 1))], 200)
   \<and> sent (snd (ask upstream_first_empty example_config (JObj [(''message'', JStr ''hi'')]) 0
                  world_init)) =
       [chat_request example_config ''hi'' (models ! 0)]"
  by (simp add: ask_def strip_str_def isspace_def upstream_first_empty_def models_def
      chat_request_def call_openrouter_def first_choice_content_def world_init_def Let_def)




subsection \<open>Blank messages\<close>

text \<open>
  C4. When the body of \<^verbatim>\<open>/api/ask\<close> has no \<^verbatim>\<open>message\<close> key, or a \<^verbatim>\<open>message\<close> string
  made of whitespace only (the empty string included), \<open>ask\<close> answers 400 with
  \<^verbatim>\<open>{"error": "Empty message"}\<close> and returns the world unchanged: no upstream call is
  recorded and the memory, history included, is as before.
\<close>

theorem ask_blank_message:
  assumes "map_of kvs ''message'' = None \<or>
           (\<exists>s. map_of kvs ''message'' = Some (JStr s) \<and> (\<forall>c\<in>set s. isspace c))"
  shows "ask net cfg (JObj kvs) now w =
           (Inr (JObj [(''error'', JStr ''Empty message'')], 400), w)"
  using assms by (auto simp: ask_def strip_str_empty_iff dropWhile_all strip_str_def)

text \<open>A message of a space, a tab and a newline, and a body without the key.\<close>

theorem ask_blank_message_witness:
  "ask upstream_down example_config
       (JObj [(''message'', JStr [CHR '' '', CHR 0x09, CHR 0x0A])]) 0 world_init =
     (Inr (JObj [(''error'', JStr ''Empty message'')], 400), world_init)
   \<and> ask upstream_down example_config (JObj []) 0 world_init =
     (Inr (JObj [(''error'', JStr ''Empty message'')], 400), world_init)"
  using ask_blank_message [of "[(''message'', JStr [CHR '' '', CHR 0x09, CHR 0x0A])]"
          upstream_down example_config 0 world_init]
        ask_blank_message [of "[]" upstream_down example_config 0 world_init]
  by (simp add: isspace_def)

subsection \<open>An empty list of choices\<close>

text \<open>
  C8. There is an upstream body, \<^verbatim>\<open>{"choices": []}\<close>, that passes the guard
  \<^verbatim>\<open>"choices" in resp\<close> (it tests the key only) and on which the extraction of the first
  choice raises IndexError. With it \<open>ask\<close> raises after one upstream call, having set
  \<open>last_chat\<close>; it neither tries the next model nor answers "All models failed".
  \<open>create_tasks\<close> and \<open>draft_email\<close> raise IndexError in the same way.
\<close>

theorem empty_choices_raises:
  "py_in ''choices'' (JObj [(''choices'', JArr [])]) = Inr True
   \<and> ask (\<lambda>r. Body (JObj [(''choices'', JArr [])])) cfg (JObj [(''message'', JStr ''hi'')]) now w =
       (Inl IndexError,
        w\<lparr>mem := (mem w)\<lparr>last_chat := JStr ''hi''\<rparr>,
          sent := sent w @ [chat_request cfg ''hi'' (hd models)]\<rparr>)
   \<and> fst (create_tasks (\<lambda>r. Body (JObj [(''choices'', JArr [])])) cfg (JObj []) now w) =
       Inl IndexError
   \<and> fst (draft_email (\<lambda>r. Body (JObj [(''choices'', JArr [])])) cfg
            (JObj [(''thread'', JStr ''hi'')]) now w) = Inl IndexError"
  by (simp add: ask_def create_tasks_def draft_email_def strip_str_def isspace_def models_def
      call_openrouter_def chat_request_def first_choice_content_def Let_def)

subsection \<open>XP accounting\<close>

lemma xp_update_falsy:
  assumes "dict_get data ''action'' JNull = Inr v" and "\<not> truthy v"
  shows "xp_update_handler data w =
           (Inr (JObj [(''action'', JStr ''chat''), (''xp_gained'', JInt 10),
                       (''total_xp'', JInt (xp (mem w) + 10))], 200),
            w\<lparr>mem := (mem w)\<lparr>xp := xp (mem w) + 10\<rparr>\<rparr>)"
proof -
  have "lower_str ''chat'' = ''chat''"
    by (simp add: lower_str_def lower_char_def)
  with assms show ?thesis
    by (simp add: xp_update_handler_def gain_table_def Let_def)
qed

lemma map_of_gain_table:
  "(case map_of gain_table a of None \<Rightarrow> 5 | Some g \<Rightarrow> g) =
     (if a = ''chat'' then 10 else if a = ''task'' then 20 else if a = ''email'' then 15 else 5)"
  by (simp add: gain_table_def)

text \<open>
  C3, as the code has it. Let the body be a dict whose \<^verbatim>\<open>action\<close> is absent, null or a
  string \<open>s\<close>. The label is \<^verbatim>\<open>chat\<close> when the action is absent, null or the empty string,
  and \<open>s\<close> lower-cased otherwise. The gain is 10 for \<^verbatim>\<open>chat\<close>, 20 for \<^verbatim>\<open>task\<close>, 15 for
  \<^verbatim>\<open>email\<close> and 5 for any other label. The handler adds the gain to \<open>xp\<close> and answers 200
  with the label, the gain and the new total; nothing else in the world changes.
\<close>

theorem xp_update_gain:
  assumes "map_of kvs ''action'' = None \<or> map_of kvs ''action'' = Some JNull
           \<or> map_of kvs ''action'' = Some (JStr s)"
  shows "\<exists>a g. xp_update_handler (JObj kvs) w =
           (Inr (JObj [(''action'', JStr a), (''xp_gained'', JInt g),
                       (''total_xp'', JInt (xp (mem w) + g))], 200),
            w\<lparr>mem := (mem w)\<lparr>xp := xp (mem w) + g\<rparr>\<rparr>)
         \<and> a = (if map_of kvs ''action'' = Some (JStr s) \<and> s \<noteq> [] then lower_str s else ''chat'')
         \<and> g = (if a = ''chat'' then 10 else if a = ''task'' then 20
                else if a = ''email'' then 15 else 5)"
proof (cases "map_of kvs ''action'' = Some (JStr s) \<and> s \<noteq> []")
  case True
  then show ?thesis
    by (simp add: xp_update_handler_def Let_def map_of_gain_table)
next
  case False
  with assms obtain v where v: "dict_get (JObj kvs) ''action'' JNull = Inr v" "\<not> truthy v"
    by auto
  from False have "(if map_of kvs ''action'' = Some (JStr s) \<and> s \<noteq> []
                    then lower_str s else ''chat'') = ''chat''"
    by (simp only: if_False)
  with xp_update_falsy [OF v, of w] show ?thesis
    by simp
qed

text \<open>The action \<^verbatim>\<open>Task\<close> at start-up: the label is \<^verbatim>\<open>task\<close> and the total goes from 500
  to 520.\<close>

theorem xp_update_gain_witness:
  "xp_update_handler (JObj [(''action'', JStr ''Task'')]) world_init =
     (Inr (JObj [(''action'', JStr ''task''), (''xp_gained'', JInt 20),
                 (''total_xp'', JInt 520)], 200),
      world_init\<lparr>mem := (mem world_init)\<lparr>xp := 520\<rparr>\<rparr>)"
  using xp_update_gain [of "[(''action'', JStr ''Task'')]" "''Task''" world_init]
  by (simp add: world_init_def memory_init_def lower_str_def lower_char_def char_of_def bit_iff_odd)

text \<open>Against C3 as worded: the action is present and is the empty string. Lower-cased it
  is still the empty string, which the gain table does not hold, so the wording gives the
  label \<^verbatim>\<open>""\<close> and a gain of 5. The handler answers with the label \<^verbatim>\<open>chat\<close> and a gain of
  10.\<close>

theorem xp_update_empty_action_counterexample:
  "fst (xp_update_handler (JObj [(''action'', JStr [])]) world_init) =
     Inr (JObj [(''action'', JStr ''chat''), (''xp_gained'', JInt 10),
                (''total_xp'', JInt 510)], 200)
   \<and> map_of [(''action'', JStr [])] ''action'' = Some (JStr [])
   \<and> lower_str [] = []
   \<and> map_of gain_table [] = None
   \<and> xp (mem (snd (xp_update_handler (JObj [(''action'', JStr [])]) world_init))) \<noteq>
       xp (mem world_init) + 5"
  by (simp add: xp_update_handler_def world_init_def memory_init_def gain_table_def lower_str_def
      lower_char_def Let_def)

subsection \<open>Reading the history\<close>

text \<open>
  C6. \<open>get_history\<close> answers 200 with, for each of the three logs, a list that is a
  suffix of the stored log (so in insertion order, the oldest entry of the window first)
  and has length \<open>min 20 (length log)\<close>: exactly the most recent entries. The world it
  returns is the one it was given, so nothing is truncated in the store.
\<close>

theorem get_history_window:
  "\<exists>cs ts es.
     get_history w =
       (Inr (JObj [(''chats'', JArr cs), (''tasks'', JArr ts), (''emails'', JArr es)], 200), w)
     \<and> length cs = min 20 (length (chats (history (mem w))))
     \<and> suffix cs (chats (history (mem w)))
     \<and> length ts = min 20 (length (tasks (history (mem w))))
     \<and> suffix ts (tasks (history (mem w)))
     \<and> length es = min 20 (length (emails (history (mem w))))
     \<and> suffix es (emails (history (mem w)))"
  by (simp add: get_history_def Let_def last20_length last20_suffix)

subsection \<open>The history is append-only\<close>

lemma ask_history:
  "\<exists>es. history (mem (snd (ask net cfg data now w))) =
          (history (mem w))\<lparr>chats := chats (history (mem w)) @ es\<rparr>"
proof (cases "\<exists>q. dict_get data ''message'' (JStr []) = Inr (JStr q) \<and> strip_str q \<noteq> []")
  case True
  then obtain q where q: "dict_get data ''message'' (JStr []) = Inr (JStr q)" "strip_str q \<noteq> []"
    by auto
  from ask_loop_history [of net cfg "strip_str q" now models
         "w\<lparr>mem := (mem w)\<lparr>last_chat := JStr (strip_str q)\<rparr>\<rparr>"] q
  show ?thesis by (simp add: ask_def)
next
  case False
  have "history (mem (snd (ask net cfg data now w))) = history (mem w)"
  proof (cases "dict_get data ''message'' (JStr [])")
    case (Inl e)
    then show ?thesis by (simp add: ask_def)
  next
    case (Inr v)
    with False show ?thesis
      by (cases v) (simp_all add: ask_def)
  qed
  then show ?thesis by (intro exI [of _ "[]"]) simp
qed

lemma create_tasks_history:
  "\<exists>es. history (mem (snd (create_tasks net cfg data now w))) =
          (history (mem w))\<lparr>tasks := tasks (history (mem w)) @ es\<rparr>"
  unfolding create_tasks_def call_openrouter_tasks
  by (auto split: sum.splits bool.splits intro: exI [of _ "[]"])

lemma draft_email_history:
  "\<exists>es. history (mem (snd (draft_email net cfg data now w))) =
          (history (mem w))\<lparr>emails := emails (history (mem w)) @ es\<rparr>"
  unfolding draft_email_def call_openrouter_email
  by (auto split: sum.splits bool.splits intro: exI [of _ "[]"])

lemma xp_update_handler_history:
  "history (mem (snd (xp_update_handler data w))) = history (mem w)"
  by (simp add: xp_update_handler_def Let_def split: sum.splits)

text \<open>
  C7. Whatever a request other than \<^verbatim>\<open>/api/history/clear\<close> does, also when it raises,
  each of the three logs before it is a prefix of the log after it: entries are only added
  at the end, none is edited or removed. \<^verbatim>\<open>/api/history/clear\<close> leaves all three logs
  empty in one assignment, and \<^verbatim>\<open>/api/history\<close> right after it answers with three empty
  lists.
\<close>

theorem history_append_only:
  "(r \<noteq> PostHistoryClear \<longrightarrow>
      prefix (chats (history (mem w))) (chats (history (mem (snd (route net cfg now r w)))))
      \<and> prefix (tasks (history (mem w))) (tasks (history (mem (snd (route net cfg now r w)))))
      \<and> prefix (emails (history (mem w))) (emails (history (mem (snd (route net cfg now r w))))))
   \<and> history (mem (snd (route net cfg now PostHistoryClear w))) =
       \<lparr>chats = [], tasks = [], emails = []\<rparr>
   \<and> fst (route net cfg now GetHistory (snd (route net cfg now PostHistoryClear w))) =
       Inr (JObj [(''chats'', JArr []), (''tasks'', JArr []), (''emails'', JArr [])], 200)"
proof (intro conjI impI)
  assume r: "r \<noteq> PostHistoryClear"
  have "\<exists>cs ts es. history (mem (snd (route net cfg now r w))) =
          \<lparr>chats = chats (history (mem w)) @ cs, tasks = tasks (history (mem w)) @ ts,
           emails = emails (history (mem w)) @ es\<rparr>"
  proof (cases r)
    case (PostAsk data)
    from ask_history [of net cfg data now w] obtain es where
      "history (mem (snd (ask net cfg data now w))) =
         (history (mem w))\<lparr>chats := chats (history (mem w)) @ es\<rparr>" ..
    with PostAsk show ?thesis
      by (intro exI [of _ es] exI [of _ "[]"]) simp
  next
    case (PostTasks data)
    from create_tasks_history [of net cfg data now w] obtain es where
      "history (mem (snd (create_tasks net cfg data now w))) =
         (history (mem w))\<lparr>tasks := tasks (history (mem w)) @ es\<rparr>" ..
    with PostTasks show ?thesis
      by (intro exI [of _ es] exI [of _ "[]"]) simp
  next
    case (PostDraftEmail data)
    from draft_email_history [of net cfg data now w] obtain es where
      "history (mem (snd (draft_email net cfg data now w))) =
         (history (mem w))\<lparr>emails := emails (history (mem w)) @ es\<rparr>" ..
    with PostDraftEmail show ?thesis
      by (intro exI [of _ es] exI [of _ "[]"]) simp
  next
    case (PostXp data)
    then show ?thesis
      by (intro exI [of _ "[]"]) (simp add: xp_update_handler_history)
  next
    case GetHealth
    then show ?thesis by (intro exI [of _ "[]"]) (simp add: health_def)
  next
    case GetHistory
    then show ?thesis by (intro exI [of _ "[]"]) (simp add: get_history_def Let_def)
  next
    case PostHistoryClear
    with r show ?thesis by simp
  qed
  then obtain cs ts es where h: "history (mem (snd (route net cfg now r w))) =
          \<lparr>chats = chats (history (mem w)) @ cs, tasks = tasks (history (mem w)) @ ts,
           emails = emails (history (mem w)) @ es\<rparr>"
    by blast
  show "prefix (chats (history (mem w))) (chats (history (mem (snd (route net cfg now r w)))))"
    by (simp add: h)
  show "prefix (tasks (history (mem w))) (tasks (history (mem (snd (route net cfg now r w)))))"
    by (simp add: h)
  show "prefix (emails (history (mem w))) (emails (history (mem (snd (route net cfg now r w)))))"
    by (simp add: h)
next
  show "history (mem (snd (route net cfg now PostHistoryClear w))) =
          \<lparr>chats = [], tasks = [], emails = []\<rparr>"
    by (simp add: clear_history_def)
next
  show "fst (route net cfg now GetHistory (snd (route net cfg now PostHistoryClear w))) =
       Inr (JObj [(''chats'', JArr []), (''tasks'', JArr []), (''emails'', JArr [])], 200)"
    by (simp add: clear_history_def get_history_def last20_def Let_def)
qed

text \<open>A chat that succeeds at start-up: the empty chat log is a prefix of the log that
  holds the new entry.\<close>

theorem history_append_only_witness:
  "PostAsk (JObj [(''message'', JStr ''hi'')]) \<noteq> PostHistoryClear
   \<and> prefix (chats (history (mem world_init)))
        (chats (history (mem (snd (route upstream_second_answers example_config 0
                                     (PostAsk (JObj [(''message'', JStr ''hi'')])) world_init)))))
   \<and> chats (history (mem (snd (route upstream_second_answers example_config 0
                                 (PostAsk (JObj [(''message'', JStr ''hi'')])) world_init)))) =
       [JObj [(''user'', JStr ''hi''), (''ai'', JStr ''Hello!''), (''ts'', JFloat 0)]]"
  using history_append_only [of "PostAsk (JObj [(''message'', JStr ''hi'')])" world_init
          upstream_second_answers example_config 0]
  by (simp add: ask_def strip_str_def isspace_def upstream_second_answers_def completion_def
      models_def call_openrouter_def first_choice_content_def world_init_def memory_init_def
      Let_def)

subsection \<open>Drafting an email\<close>

text \<open>
  C9. Let the body of \<^verbatim>\<open>/api/draft-email\<close> carry a \<^verbatim>\<open>thread\<close> string that is not blank.
  Whatever the upstream does, and whether the handler then answers 200, answers 400 or
  raises, the world it leaves has \<open>last_chat\<close> set to the thread text (stripped, as the
  handler uses it) and one upstream call recorded; when the call raises with message \<open>e\<close>
  the draft fails with 400 and \<open>last_chat\<close> is changed all the same. \<open>health\<close> on that world
  shows the new \<open>last_chat\<close>, with \<open>xp\<close> and \<open>last_tasks\<close> as before.
\<close>

theorem draft_email_sets_last_chat:
  assumes "map_of kvs ''thread'' = Some (JStr t)" and "strip_str t \<noteq> []"
  shows "last_chat (mem (snd (draft_email net cfg (JObj kvs) now w))) = JStr (strip_str t)
    \<and> sent (snd (draft_email net cfg (JObj kvs) now w)) =
        sent w @ [email_request cfg (strip_str t)]
    \<and> (\<forall>e. net (email_request cfg (strip_str t)) = Raises e \<longrightarrow>
         fst (draft_email net cfg (JObj kvs) now w) =
           Inr (JObj [(''error'', JObj [(''error'', JStr e)])], 400))
    \<and> fst (health cfg (snd (draft_email net cfg (JObj kvs) now w))) =
        Inr (JObj [(''ok'', JBool True), (''model'', JStr (MODEL cfg)),
                   (''xp'', JInt (xp (mem w))), (''last_chat'', JStr (strip_str t)),
                   (''last_tasks'', last_tasks (mem w))], 200)"
  using assms unfolding draft_email_def call_openrouter_email
  by (auto simp: health_def split: sum.splits bool.splits)

text \<open>A draft that fails at start-up because the upstream times out.\<close>

theorem draft_email_sets_last_chat_witness:
  "last_chat (mem (snd (draft_email upstream_down example_config
                          (JObj [(''thread'', JStr '' hello '')]) 0 world_init))) = JStr ''hello''
   \<and> fst (draft_email upstream_down example_config
            (JObj [(''thread'', JStr '' hello '')]) 0 world_init) =
       Inr (JObj [(''error'', JObj [(''error'', JStr ''timed out'')])], 400)
   \<and> fst (health example_config
            (snd (draft_email upstream_down example_config
                    (JObj [(''thread'', JStr '' hello '')]) 0 world_init))) =
       Inr (JObj [(''ok'', JBool True), (''model'', JStr ''meta-llama/llama-3.1-8b-instruct''),
                  (''xp'', JInt 500), (''last_chat'', JStr ''hello''),
                  (''last_tasks'', JNull)], 200)"
  using draft_email_sets_last_chat [of "[(''thread'', JStr '' hello '')]" "'' hello ''"
          upstream_down example_config 0 world_init]
  by (simp add: strip_str_def isspace_def world_init_def memory_init_def upstream_down_def
      example_config_def)

subsection \<open>The goal of a task request\<close>

lemma create_tasks_sent:
  assumes "dict_get data ''goal'' (JStr ''Plan my day effectively'') = Inr (JStr g)"
  shows "sent (snd (create_tasks net cfg data now w)) = sent w @ [tasks_request cfg (strip_str g)]"
  using assms
  by (simp add: create_tasks_def call_openrouter_tasks split: sum.splits bool.splits)

lemma create_tasks_not_string:
  assumes "map_of kvs ''goal'' = Some v" and "\<forall>s. v \<noteq> JStr s"
  shows "create_tasks net cfg (JObj kvs) now w = (Inl AttributeError, w)"
  using assms by (cases v) (simp_all add: create_tasks_def)

text \<open>
  C10. The goal \<open>create_tasks\<close> sends upstream is the default \<^verbatim>\<open>Plan my day effectively\<close>
  when the body has no \<^verbatim>\<open>goal\<close> key. When the key is present the default is not used: a
  string is sent stripped, so a blank or whitespace-only goal is sent as the empty string
  (the call is made, there is no emptiness check), and a value that is not a string makes
  the handler raise before any call.
\<close>

theorem create_tasks_goal:
  "(map_of kvs ''goal'' = None \<longrightarrow>
      sent (snd (create_tasks net cfg (JObj kvs) now w)) =
        sent w @ [tasks_request cfg ''Plan my day effectively''])
   \<and> (map_of kvs ''goal'' = Some (JStr g) \<longrightarrow>
      sent (snd (create_tasks net cfg (JObj kvs) now w)) =
        sent w @ [tasks_request cfg (strip_str g)])
   \<and> (map_of kvs ''goal'' = Some (JStr g) \<and> (\<forall>c\<in>set g. isspace c) \<longrightarrow>
      sent (snd (create_tasks net cfg (JObj kvs) now w)) = sent w @ [tasks_request cfg []])
   \<and> (map_of kvs ''goal'' = Some v \<and> (\<forall>s. v \<noteq> JStr s) \<longrightarrow>
      create_tasks net cfg (JObj kvs) now w = (Inl AttributeError, w))"
proof (intro conjI impI)
  assume "map_of kvs ''goal'' = None"
  then have "dict_get (JObj kvs) ''goal'' (JStr ''Plan my day effectively'') =
               Inr (JStr ''Plan my day effectively'')"
    by simp
  from create_tasks_sent [OF this]
  show "sent (snd (create_tasks net cfg (JObj kvs) now w)) =
          sent w @ [tasks_request cfg ''Plan my day effectively'']"
    by (simp only: strip_default_goal)
next
  assume "map_of kvs ''goal'' = Some (JStr g)"
  then have "dict_get (JObj kvs) ''goal'' (JStr ''Plan my day effectively'') = Inr (JStr g)"
    by simp
  from create_tasks_sent [OF this]
  show "sent (snd (create_tasks net cfg (JObj kvs) now w)) =
          sent w @ [tasks_request cfg (strip_str g)]" .
next
  assume a: "map_of kvs ''goal'' = Some (JStr g) \<and> (\<forall>c\<in>set g. isspace c)"
  then have "dict_get (JObj kvs) ''goal'' (JStr ''Plan my day effectively'') = Inr (JStr g)"
    by simp
  from create_tasks_sent [OF this] a
  show "sent (snd (create_tasks net cfg (JObj kvs) now w)) = sent w @ [tasks_request cfg []]"
    by (simp add: strip_str_empty_iff [symmetric])
next
  assume "map_of kvs ''goal'' = Some v \<and> (\<forall>s. v \<noteq> JStr s)"
  then show "create_tasks net cfg (JObj kvs) now w = (Inl AttributeError, w)"
    by (simp add: create_tasks_not_string)
qed

text \<open>A body without the key, a goal of two spaces, and a null goal.\<close>

theorem create_tasks_goal_witness:
  "sent (snd (create_tasks upstream_down example_config (JObj []) 0 world_init)) =
     [tasks_request example_config ''Plan my day effectively'']
   \<and> sent (snd (create_tasks upstream_down example_config
                  (JObj [(''goal'', JStr [CHR '' '', CHR '' ''])]) 0 world_init)) =
     [tasks_request example_config []]
   \<and> create_tasks upstream_down example_config (JObj [(''goal'', JNull)]) 0 world_init =
     (Inl AttributeError, world_init)"
  using create_tasks_goal [of "[]" upstream_down example_config 0 world_init]
        create_tasks_goal [of "[(''goal'', JStr [CHR '' '', CHR '' ''])]"
          upstream_down example_config 0 world_init "[CHR '' '', CHR '' '']"]
        create_tasks_goal [of "[(''goal'', JNull)]"
          upstream_down example_config 0 world_init _ JNull]
  by (simp add: isspace_def strip_str_def world_init_def)

end
